theory Spec2Isabelle
  imports Main
begin

section \<open>JavaScript values of the HTTP layer (index.js)\<close>

text \<open>
  A value handed to a node-style callback as its error is either an Error object, which
  has a message, or a bare string. index.js reads \<^verbatim>\<open>err.message\<close> of it; on a string
  that property is undefined, written \<open>None\<close> here.
\<close>

datatype js_error = ErrorObj string | ErrorStr string

fun message :: "js_error \<Rightarrow> string option" where
  "message (ErrorObj m) = Some m"
| "message (ErrorStr s) = None"

text \<open>
  Truthiness of a value that is a string or undefined (a header, a body field, a path):
  undefined and the empty string are falsy.
\<close>

fun truthy :: "string option \<Rightarrow> bool" where
  "truthy None = False"
| "truthy (Some s) = (s \<noteq> [])"

text \<open>Template literals print numbers in decimal.\<close>

fun digit_char :: "nat \<Rightarrow> char" where
  "digit_char n = (''0123456789'' ! (n mod 10))"

fun string_of_nat :: "nat \<Rightarrow> string" where
  "string_of_nat n =
     (if n < 10 then [digit_char n] else string_of_nat (n div 10) @ [digit_char n])"

text \<open>\<^verbatim>\<open>path.join(a, b)\<close> for the two plain segments index.js joins.\<close>

definition path_join :: "string \<Rightarrow> string \<Rightarrow> string" where
  "path_join a b = a @ ''/'' @ b"

section \<open>Tasks and the Task Manager\<close>

datatype status_code = QUEUED | RUNNING | FAILED | COMPLETED | CANCELED

type_synonym options = "(string \<times> string) list"

text \<open>
  Modelled from the spec: libs/Task is not among the sources. The fields are those of
  the spec's data model that the HTTP layer passes to the constructor or reads back.
\<close>

record task =
  uuid :: string
  name :: "string option"
  status :: status_code
  options :: options
  "output" :: "string list"
  webhook :: "string option"
  skipPostProcessing :: bool

text \<open>
  Modelled from the spec: libs/TaskManager is not among the sources. The manager owns
  the mapping from id to task; \<open>find\<close> returns the task or nothing, \<open>addNew\<close> registers
  a task under its id.
\<close>

type_synonym task_manager = "string \<rightharpoonup> task"

definition taskManager_find :: "task_manager \<Rightarrow> string \<Rightarrow> task option" where
  "taskManager_find tm u = tm u"

definition taskManager_addNew :: "task_manager \<Rightarrow> task \<Rightarrow> task_manager" where
  "taskManager_addNew tm t = tm(uuid t \<mapsto> t)"

section \<open>Responses and collaborator calls\<close>

text \<open>
  What a handler sends with \<^verbatim>\<open>res.json\<close> (or streams). \<open>JsonError None\<close> is
  \<^verbatim>\<open>res.json({error: undefined})\<close>, whose body is \<^verbatim>\<open>{}\<close>.
\<close>

datatype response =
    JsonError "string option"
  | JsonUuid string
  | JsonSuccess
  | JsonFailure "string option"
  | JsonInfo task
  | JsonOutput "string list"
  | FileStream string string

text \<open>The calls to collaborators that a handler makes, in order.\<close>

datatype call =
    FilterOptions "string option"
  | Rmdir string
  | TaskAddNew string
  | TaskCancel string
  | TaskRemove string
  | TaskRestart string "options option"

text \<open>
  The result of one request: the responses sent, the Task Manager afterwards, the
  collaborator calls made, and an exception thrown inside a callback and caught by nobody.
  Every route runs \<^verbatim>\<open>authCheck\<close> (libs/auth) first; the handlers below are what runs
  for a request it lets through. The server listens only after startup has constructed
  the Task Manager, so the variable \<^verbatim>\<open>taskManager\<close> of line 86 is set in every handler.
\<close>

record outcome =
  responses :: "response list"
  manager :: task_manager
  calls :: "call list"
  uncaught :: "string option"

section \<open>POST /task/new\<close>

subsection \<open>The set-uuid check\<close>

text \<open>
  The pattern
  \<^verbatim>\<open>/^[0-9a-f]{8}-[0-9a-f]{4}-[1-5][0-9a-f]{3}-[89ab][0-9a-f]{3}-[0-9a-f]{12}$/i\<close>
  as a list of character classes; the flag i lets the letters be of either case.
\<close>

datatype char_class = Hex | Dash | Version | Variant

fun in_class :: "char_class \<Rightarrow> char \<Rightarrow> bool" where
  "in_class Hex c = (c \<in> set ''0123456789abcdefABCDEF'')"
| "in_class Dash c = (c = CHR ''-'')"
| "in_class Version c = (c \<in> set ''12345'')"
| "in_class Variant c = (c \<in> set ''89abAB'')"

definition uuid_pattern :: "char_class list" where
  "uuid_pattern =
     replicate 8 Hex @ [Dash] @ replicate 4 Hex @ [Dash] @
     [Version] @ replicate 3 Hex @ [Dash] @
     [Variant] @ replicate 3 Hex @ [Dash] @ replicate 12 Hex"

fun matches :: "char_class list \<Rightarrow> string \<Rightarrow> bool" where
  "matches [] [] = True"
| "matches (k # ks) (c # cs) = (in_class k c \<and> matches ks cs)"
| "matches _ _ = False"

definition valid_uuid :: "string \<Rightarrow> bool" where
  "valid_uuid s = matches uuid_pattern s"

subsection \<open>The request and its environment\<close>

text \<open>
  What multer leaves on a multipart request: \<^verbatim>\<open>req.files\<close>, an array of the files it
  stored (their original names, none for a form without files), and \<^verbatim>\<open>req.body\<close> with
  the text fields.
\<close>

record form =
  files :: "string list"
  body_zipurl :: "string option"
  body_options :: "string option"
  body_name :: "string option"
  body_webhook :: "string option"
  body_skipPostProcessing :: "string option"

text \<open>
  The request as the handler sees it: the set-uuid header and the multipart form. On a
  request that is not multipart multer sets nothing, so \<^verbatim>\<open>req.files\<close> and
  \<^verbatim>\<open>req.body\<close> are both undefined (\<open>None\<close>).
\<close>

record new_request =
  set_uuid :: "string option"
  multipart :: "form option"

text \<open>What \<^verbatim>\<open>fs.stat\<close> hands its callback: an error with its code, or the stats with
  the answer of \<^verbatim>\<open>isDirectory()\<close>.\<close>

datatype stat_result = StatErr string | StatOk bool

text \<open>
  What opening and extracting one zip archive ends in: the archive's error event, an
  error of \<^verbatim>\<open>zip.extract\<close>, or the number of entries extracted.
\<close>

datatype zip_result = ZipError js_error | ExtractFailed | Extracted nat

text \<open>
  Everything outside index.js that the handler consults, each with the result it gives
  for this request: the configuration, the generated id, multer, the option validator
  (libs/odmInfo), the file system, the download, the zip library and the Task constructor.
  The validator and multer report Error objects, given here by their messages;
  \<open>undefined_body_error\<close> is the message of the TypeError the engine raises when a
  property of an undefined body is read.
\<close>

record env =
  maxImages :: "nat option"
  undefined_body_error :: string
  uuidv4 :: string
  upload_error :: "string option"
  filterOptions :: "string option \<Rightarrow> string + options"
  stat_srcPath :: stat_result
  stat_destPath :: stat_result
  download_zipurl :: "js_error option"
  mkdir_destPath :: "js_error option"
  mkdir_destGpcPath :: "js_error option"
  mv_srcPath :: "js_error option"
  readdir_for_zip :: "js_error + string list"
  zip_extract :: "string \<Rightarrow> zip_result"
  readdir_for_gpc :: "js_error + string list"
  mv_entry :: "string \<Rightarrow> js_error option"
  unlink_entry :: "string \<Rightarrow> js_error option"
  new_Task_error :: "js_error option"

text \<open>\<^verbatim>\<open>config.maxImages\<close> is a number or null; null and 0 are falsy.\<close>

fun limit_exceeded :: "nat option \<Rightarrow> nat \<Rightarrow> bool" where
  "limit_exceeded None n = False"
| "limit_exceeded (Some m) n = (m \<noteq> 0 \<and> n > m)"

definition limit_message :: "nat \<Rightarrow> nat option \<Rightarrow> string" where
  "limit_message n m =
     string_of_nat n @ '' images uploaded, but this node can only process up to '' @
     (case m of None \<Rightarrow> ''null'' | Some k \<Rightarrow> string_of_nat k) @ ''.''"

subsection \<open>The first middleware: choosing the id\<close>

text \<open>
  Lines 154-170. \<open>Inr\<close> is the id stored in \<^verbatim>\<open>req.id\<close> before \<^verbatim>\<open>next()\<close>;
  \<open>Inl\<close> is the response sent instead, after which no later middleware runs.
\<close>

definition choose_id :: "env \<Rightarrow> task_manager \<Rightarrow> new_request \<Rightarrow> response + string" where
  "choose_id e tm req =
     (if truthy (set_uuid req) then
        (let userUuid = the (set_uuid req) in
         if valid_uuid userUuid \<and> taskManager_find tm userUuid = None then Inr userUuid
         else Inl (JsonError (Some (''Invalid set-uuid: '' @ userUuid))))
      else Inr (uuidv4 e))"

subsection \<open>The steps of the series\<close>

text \<open>
  A step of \<^verbatim>\<open>async.series\<close> ends by calling its callback without an error (\<open>Next\<close>),
  by calling it with an error (\<open>Failed\<close>, which skips the remaining steps), by
  throwing inside an I/O callback (\<open>Thrown\<close>, after which no callback is called), or by
  calling its callback with an error and then once more (\<open>FailedTwice\<close>): the first call
  runs the final callback, and on the second the async library throws
  "Callback was already called." inside the I/O callback.
\<close>

datatype 'a step = Next 'a | Failed js_error | Thrown string | FailedTwice js_error

fun and_then :: "'a step \<Rightarrow> ('a \<Rightarrow> 'b step) \<Rightarrow> 'b step" where
  "and_then (Next x) f = f x"
| "and_then (Failed err) f = Failed err"
| "and_then (Thrown t) f = Thrown t"
| "and_then (FailedTwice err) f = FailedTwice err"

fun io_step :: "js_error option \<Rightarrow> unit step" where
  "io_step None = Next ()"
| "io_step (Some err) = Failed err"

text \<open>\<^verbatim>\<open>async.eachSeries\<close>: the iteratee on each entry in turn, stopping at the first error.\<close>

fun eachSeries :: "'a list \<Rightarrow> ('a \<Rightarrow> unit step) \<Rightarrow> unit step" where
  "eachSeries [] f = Next ()"
| "eachSeries (x # xs) f = and_then (f x) (\<lambda>_. eachSeries xs f)"

definition has_files :: "form \<Rightarrow> bool" where
  "has_files f = (length (files f) > 0)"

text \<open>Lines 197-205: the options of the body are replaced by the validated ones.\<close>

definition step_filterOptions :: "env \<Rightarrow> form \<Rightarrow> options step" where
  "step_filterOptions e f =
     (case filterOptions e (body_options f) of
        Inl m \<Rightarrow> Failed (ErrorObj m)
      | Inr opts \<Rightarrow> Next opts)"

text \<open>
  Lines 208-217. When \<^verbatim>\<open>fs.stat(destPath)\<close> succeeds, \<^verbatim>\<open>err\<close> is null and building
  the message reads \<^verbatim>\<open>err.code\<close> of null: a TypeError inside the callback.
\<close>

definition step_check_destPath :: "env \<Rightarrow> form \<Rightarrow> unit step" where
  "step_check_destPath e f =
     (if has_files f then
        (case stat_destPath e of
           StatErr code \<Rightarrow>
             if code = ''ENOENT'' then Next ()
             else Failed (ErrorObj (''Directory exists (should not have happened: '' @ code @ '')''))
         | StatOk _ \<Rightarrow> Thrown ''TypeError'')
      else Next ())"

text \<open>
  Lines 220-235. The destination function of the storage (lines 66-77) never reports an
  error, so only the download can fail.
\<close>

definition step_zipurl :: "env \<Rightarrow> form \<Rightarrow> unit step" where
  "step_zipurl e f =
     (if truthy (body_zipurl f) then io_step (download_zipurl e) else Next ())"

text \<open>\<^verbatim>\<open>/\.zip$/gi\<close> and \<^verbatim>\<open>/\.txt$/gi\<close>, each a fresh literal at every test.\<close>

definition lower_char :: "char \<Rightarrow> char" where
  "lower_char c =
     (if c \<in> set ''ABCDEFGHIJKLMNOPQRSTUVWXYZ'' then char_of (of_char c + (32::nat)) else c)"

definition ends_with_ci :: "string \<Rightarrow> string \<Rightarrow> bool" where
  "ends_with_ci suffix s =
     (length suffix \<le> length s \<and>
      map lower_char (drop (length s - length suffix) s) = suffix)"

text \<open>
  Lines 247-275, for one directory entry. After an extract error the source calls the
  callback with \<^verbatim>\<open>'Extract error'\<close> (line 260) and then, falling through to line 271
  with an undefined count, once more.
\<close>

definition extract_entry :: "env \<Rightarrow> string \<Rightarrow> unit step" where
  "extract_entry e entry =
     (if ends_with_ci ''.zip'' entry then
        (case zip_extract e entry of
           ZipError err \<Rightarrow> Failed err
         | ExtractFailed \<Rightarrow> FailedTwice (ErrorStr ''Extract error'')
         | Extracted count \<Rightarrow>
             if limit_exceeded (maxImages e) count
             then Failed (ErrorStr (limit_message count (maxImages e)))
             else Next ())
      else Next ())"

definition step_extract :: "env \<Rightarrow> unit step" where
  "step_extract e =
     (case readdir_for_zip e of
        Inl err \<Rightarrow> Failed err
      | Inr entries \<Rightarrow> eachSeries entries (extract_entry e))"

text \<open>Lines 281-296.\<close>

definition move_entry :: "env \<Rightarrow> string \<Rightarrow> unit step" where
  "move_entry e entry =
     (if ends_with_ci ''.txt'' entry then io_step (mv_entry e entry)
      else if ends_with_ci ''.zip'' entry then io_step (unlink_entry e entry)
      else Next ())"

definition step_gpc :: "env \<Rightarrow> unit step" where
  "step_gpc e =
     (case readdir_for_gpc e of
        Inl err \<Rightarrow> Failed err
      | Inr entries \<Rightarrow> eachSeries entries (move_entry e))"

text \<open>
  Lines 299-310. Modelled from the spec: the Task constructor (libs/Task) yields a task
  in QUEUED with the given id, name, options, webhook and flag, or an error.
\<close>

definition step_new_Task :: "env \<Rightarrow> form \<Rightarrow> string \<Rightarrow> options \<Rightarrow> task step" where
  "step_new_Task e f i opts =
     (case new_Task_error e of
        Some err \<Rightarrow> Failed err
      | None \<Rightarrow>
          Next \<lparr> uuid = i, name = body_name f, status = QUEUED, options = opts,
                 output = [], webhook = body_webhook f,
                 skipPostProcessing = (body_skipPostProcessing f = Some ''true'') \<rparr>)"

text \<open>Lines 196-310: the steps in the order of the array.\<close>

definition series_new :: "env \<Rightarrow> form \<Rightarrow> string \<Rightarrow> task step" where
  "series_new e f i =
     and_then (step_filterOptions e f) (\<lambda>opts.
     and_then (step_check_destPath e f) (\<lambda>_.
     and_then (step_zipurl e f) (\<lambda>_.
     and_then (io_step (mkdir_destPath e)) (\<lambda>_.
     and_then (io_step (mkdir_destGpcPath e)) (\<lambda>_.
     and_then (io_step (mv_srcPath e)) (\<lambda>_.
     and_then (step_extract e) (\<lambda>_.
     and_then (step_gpc e) (\<lambda>_.
     step_new_Task e f i opts))))))))"

subsection \<open>The handler\<close>

text \<open>
  Lines 179-186: \<^verbatim>\<open>die\<close> sends the error and removes \<^verbatim>\<open>tmp/<id>\<close> when
  \<^verbatim>\<open>fs.stat\<close> finds a directory there.
\<close>

definition die :: "env \<Rightarrow> task_manager \<Rightarrow> string \<Rightarrow> call list \<Rightarrow> string option \<Rightarrow> outcome" where
  "die e tm srcPath made err =
     \<lparr> responses = [JsonError err],
       manager = tm,
       calls = made @ (case stat_srcPath e of
                         StatOk True \<Rightarrow> [Rmdir srcPath]
                       | _ \<Rightarrow> []),
       uncaught = None \<rparr>"

text \<open>
  Lines 171-316: the handler after \<^verbatim>\<open>upload.array('images')\<close> has run.

  Without a body, \<^verbatim>\<open>!req.files\<close> holds and line 188 goes on to read
  \<^verbatim>\<open>req.body.zipurl\<close> of undefined: the TypeError is thrown in the handler itself, so
  Express passes it to the error-handling middleware (lines 846-849), which answers
  with its message; \<^verbatim>\<open>die\<close> does not run.

  When a step has called back twice (\<open>FailedTwice\<close>), \<^verbatim>\<open>die\<close> has sent its response
  and started \<^verbatim>\<open>fs.stat\<close> by the time the library throws; the exception ends the process
  before the callback of \<^verbatim>\<open>fs.stat\<close> can run.
\<close>

definition new_handler :: "env \<Rightarrow> task_manager \<Rightarrow> new_request \<Rightarrow> string \<Rightarrow> outcome" where
  "new_handler e tm req i =
     (let srcPath = path_join ''tmp'' i in
      case multipart req of
        None \<Rightarrow>
          \<lparr> responses = [JsonError (Some (undefined_body_error e))], manager = tm,
            calls = [], uncaught = None \<rparr>
      | Some f \<Rightarrow>
          if \<not> has_files f \<and> \<not> truthy (body_zipurl f)
          then die e tm srcPath [] (Some ''Need at least 1 file or a zip file url.'')
          else if limit_exceeded (maxImages e) (length (files f))
          then die e tm srcPath [] (Some (limit_message (length (files f)) (maxImages e)))
          else
            (case series_new e f i of
               Next t \<Rightarrow>
                 \<lparr> responses = [JsonUuid i], manager = taskManager_addNew tm t,
                   calls = [FilterOptions (body_options f), TaskAddNew (uuid t)],
                   uncaught = None \<rparr>
             | Failed err \<Rightarrow> die e tm srcPath [FilterOptions (body_options f)] (message err)
             | Thrown t \<Rightarrow>
                 \<lparr> responses = [], manager = tm,
                   calls = [FilterOptions (body_options f)], uncaught = Some t \<rparr>
             | FailedTwice err \<Rightarrow>
                 \<lparr> responses = [JsonError (message err)], manager = tm,
                   calls = [FilterOptions (body_options f)],
                   uncaught = Some ''Callback was already called.'' \<rparr>))"

text \<open>
  Lines 154-316 and 846-849: the whole route. An error of the upload middleware goes to
  the error-handling middleware, which answers with its message.
\<close>

definition task_new :: "env \<Rightarrow> task_manager \<Rightarrow> new_request \<Rightarrow> outcome" where
  "task_new e tm req =
     (case choose_id e tm req of
        Inl r \<Rightarrow> \<lparr> responses = [r], manager = tm, calls = [], uncaught = None \<rparr>
      | Inr i \<Rightarrow>
          (case upload_error e of
             Some m \<Rightarrow> \<lparr> responses = [JsonError (Some m)], manager = tm, calls = [],
                         uncaught = None \<rparr>
           | None \<Rightarrow> new_handler e tm req i))"

section \<open>Looking a task up: info, output, download\<close>

definition reply :: "task_manager \<Rightarrow> response \<Rightarrow> outcome" where
  "reply tm r = \<lparr> responses = [r], manager = tm, calls = [], uncaught = None \<rparr>"

text \<open>Lines 318-324: \<open>Inr\<close> is the task stored in \<^verbatim>\<open>req.task\<close> before \<^verbatim>\<open>next()\<close>.\<close>

definition getTaskFromUuid :: "task_manager \<Rightarrow> string \<Rightarrow> response + task" where
  "getTaskFromUuid tm u =
     (case taskManager_find tm u of
        Some t \<Rightarrow> Inr t
      | None \<Rightarrow> Inl (JsonError (Some (u @ '' not found''))))"


text \<open>
  Modelled from the spec: \<^verbatim>\<open>Task.getOutput\<close> (libs/Task) returns the output sliced
  from \<open>fromLine\<close>, as \<^verbatim>\<open>Array.prototype.slice\<close> does for a start index that is not
  negative: nothing when the start is at or past the end.
\<close>

fun slice_from :: "'a list \<Rightarrow> nat \<Rightarrow> 'a list" where
  "slice_from [] n = []"
| "slice_from (x # xs) 0 = x # xs"
| "slice_from (x # xs) (Suc n) = slice_from xs n"

definition getOutput :: "task \<Rightarrow> nat \<Rightarrow> string list" where
  "getOutput t fromLine = slice_from (output t) fromLine"

text \<open>Lines 434-436; a missing \<^verbatim>\<open>line\<close> parameter is the default 0.\<close>

definition get_output :: "task_manager \<Rightarrow> string \<Rightarrow> nat option \<Rightarrow> outcome" where
  "get_output tm u line =
     (case getTaskFromUuid tm u of
        Inl r \<Rightarrow> reply tm r
      | Inr t \<Rightarrow> reply tm (JsonOutput (getOutput t (case line of None \<Rightarrow> 0 | Some n \<Rightarrow> n))))"

text \<open>
  Lines 474-491. \<^verbatim>\<open>Task.getAssetsArchivePath\<close> (libs/Task) and \<^verbatim>\<open>fs.existsSync\<close>
  are parameters: the first gives a path or a falsy value, the second says whether the
  file is there.
\<close>

definition get_download ::
  "(task \<Rightarrow> string \<Rightarrow> string option) \<Rightarrow> (string \<Rightarrow> bool) \<Rightarrow>
   task_manager \<Rightarrow> string \<Rightarrow> string option \<Rightarrow> outcome" where
  "get_download getAssetsArchivePath existsSync tm u asset_param =
     (case getTaskFromUuid tm u of
        Inl r \<Rightarrow> reply tm r
      | Inr t \<Rightarrow>
          (let asset = (case asset_param of Some a \<Rightarrow> a | None \<Rightarrow> ''all.zip'');
               filePath = getAssetsArchivePath t asset in
           if truthy filePath then
             (if existsSync (the filePath) then reply tm (FileStream asset (the filePath))
              else reply tm (JsonError (Some ''Asset not ready'')))
           else reply tm (JsonError (Some ''Invalid asset''))))"

section \<open>Cancel, remove, restart\<close>


definition task_restart :: "task \<Rightarrow> options option \<Rightarrow> js_error + task" where
  "task_restart t newOptions =
     (if status t = QUEUED then Inl (ErrorObj ''Task cannot be restarted'')
      else Inr (t\<lparr>status := QUEUED, output := [],
                  options := (case newOptions of None \<Rightarrow> options t | Some opts \<Rightarrow> opts)\<rparr>))"



definition taskManager_restart ::
  "task_manager \<Rightarrow> string \<Rightarrow> options option \<Rightarrow> js_error option \<times> task_manager" where
  "taskManager_restart tm u newOptions =
     (case taskManager_find tm u of
        None \<Rightarrow> (Some (ErrorObj (u @ '' not found'')), tm)
      | Some t \<Rightarrow>
          (case task_restart t newOptions of
             Inl err \<Rightarrow> (Some err, tm)
           | Inr t' \<Rightarrow> (None, tm(u \<mapsto> t'))))"

text \<open>
  The body of a command request: its uuid and options fields, and the text
  \<^verbatim>\<open>JSON.stringify(req.body)\<close> gives.
\<close>

record command_request =
  body_uuid :: "string option"
  restart_options :: "string option"
  body_json :: string

text \<open>Lines 515-518: \<open>Some\<close> is the response sent instead of \<^verbatim>\<open>next()\<close>.\<close>

definition uuidCheck :: "command_request \<Rightarrow> response option" where
  "uuidCheck req =
     (if \<not> truthy (body_uuid req)
      then Some (JsonError (Some (''uuid param missing and body is ['' @ body_json req @ ''].'')))
      else None)"

text \<open>Lines 520-525.\<close>

fun successHandler :: "js_error option \<Rightarrow> response" where
  "successHandler None = JsonSuccess"
| "successHandler (Some err) = JsonFailure (message err)"



text \<open>
  Lines 614-626. The validator (\<^verbatim>\<open>odmInfo.filterOptions\<close>) is a parameter; it is asked
  only when the options field is truthy, and its list replaces the field.
\<close>

definition post_restart ::
  "(string option \<Rightarrow> string + options) \<Rightarrow> task_manager \<Rightarrow> command_request \<Rightarrow> outcome" where
  "post_restart validator tm req =
     (case uuidCheck req of
        Some r \<Rightarrow> reply tm r
      | None \<Rightarrow>
          (let u = the (body_uuid req) in
           if truthy (restart_options req) then
             (case validator (restart_options req) of
                Inl m \<Rightarrow>
                  \<lparr> responses = [JsonError (Some m)], manager = tm,
                    calls = [FilterOptions (restart_options req)], uncaught = None \<rparr>
              | Inr opts \<Rightarrow>
                  (let (err, tm') = taskManager_restart tm u (Some opts) in
                   \<lparr> responses = [successHandler err], manager = tm',
                     calls = [FilterOptions (restart_options req), TaskRestart u (Some opts)],
                     uncaught = None \<rparr>))
           else
             (let (err, tm') = taskManager_restart tm u None in
              \<lparr> responses = [successHandler err], manager = tm',
                calls = [TaskRestart u None], uncaught = None \<rparr>)))"

section \<open>Shutdown and startup\<close>

text \<open>What the process does, in order, as far as index.js says.\<close>

datatype proc_event =
    DumpTaskList
  | AuthCleanup
  | ServerClose
  | OdmInfoInitialize
  | AuthInitialize
  | S3Initialize
  | NewTaskManager
  | Listen nat
  | LogInfo string
  | LogError string
  | Uncaught string
  | Exit nat

text \<open>
  An exception that nobody catches (index.js installs no handler for it) ends the
  process with code 1.
\<close>

definition uncaught_exception :: "string \<Rightarrow> proc_event list" where
  "uncaught_exception t = [Uncaught t, Exit 1]"

text \<open>
  How a collaborator treats the callback it is given: it calls it without an error,
  with an error, or not at all.
\<close>

datatype cb_result = CbOk | CbErr js_error | CbNever

text \<open>
  \<^verbatim>\<open>async.series\<close> over steps that are each given by what they do and how their
  callback is called: the next step runs only after a call without an error, the final
  callback gets the first error, and nothing follows a step that never calls back.
\<close>

fun series :: "(proc_event list \<times> cb_result) list \<Rightarrow> (js_error option \<Rightarrow> proc_event list)
    \<Rightarrow> proc_event list" where
  "series [] final = final None"
| "series ((evs, CbOk) # rest) final = evs @ series rest final"
| "series ((evs, CbErr err) # rest) final = evs @ final (Some err)"
| "series ((evs, CbNever) # rest) final = evs"

text \<open>Lines 865 and 868: the two signals index.js listens for.\<close>

datatype signal = SIGTERM | SIGINT

text \<open>
  The argument \<^verbatim>\<open>done\<close> of \<^verbatim>\<open>gracefulShutdown\<close>: a function, or the name of the signal,
  which is what the process passes to a listener. Calling a signal name is a TypeError.
\<close>

datatype done_arg = DoneFunction "js_error option \<Rightarrow> proc_event list" | DoneSignal signal

fun call_done :: "done_arg \<Rightarrow> js_error option \<Rightarrow> proc_event list" where
  "call_done (DoneFunction k) err = k err"
| "call_done (DoneSignal sg) err = uncaught_exception ''TypeError''"

text \<open>
  Lines 851-862. \<open>constructed\<close> says whether startup has reached line 877 and set the
  variable \<^verbatim>\<open>taskManager\<close> of line 86; before that the first step reads
  \<^verbatim>\<open>dumpTaskList\<close> of undefined and throws. The last step exits the process and never
  calls back.
\<close>

definition gracefulShutdown :: "bool \<Rightarrow> done_arg \<Rightarrow> cb_result \<Rightarrow> cb_result \<Rightarrow> proc_event list" where
  "gracefulShutdown constructed done dumpTaskList auth_cleanup =
     series
       [(if constructed then ([DumpTaskList], dumpTaskList)
         else (uncaught_exception ''TypeError'', CbNever)),
        ([AuthCleanup], auth_cleanup),
        ([LogInfo ''Closing server'', ServerClose, LogInfo ''Exiting...'', Exit 0], CbNever)]
       (call_done done)"

text \<open>Lines 865 and 868: \<^verbatim>\<open>gracefulShutdown\<close> itself is the listener of both signals.\<close>

fun on_signal :: "bool \<Rightarrow> signal \<Rightarrow> cb_result \<Rightarrow> cb_result \<Rightarrow> proc_event list" where
  "on_signal constructed SIGTERM = gracefulShutdown constructed (DoneSignal SIGTERM)"
| "on_signal constructed SIGINT = gracefulShutdown constructed (DoneSignal SIGINT)"

text \<open>
  Line 879. Express hands the callback of \<^verbatim>\<open>app.listen\<close> to the server as a listener of
  its event "listening", so it is called, without an argument, once the port is bound.
  A failed bind is an "error" event of the server, which has no listener: it ends the
  process as an uncaught exception, and the callback is never called.
\<close>

datatype listen_result = Listening | BindFailed string

text \<open>Lines 871-898: the configuration and the results of the initialisations.\<close>

record startup_env =
  config_test :: bool
  config_powercycle :: bool
  config_port :: nat
  odmInfo_initialize :: cb_result
  auth_initialize :: cb_result
  S3_initialize :: cb_result
  new_TaskManager :: cb_result
  app_listen :: listen_result

definition commands :: "startup_env \<Rightarrow> (proc_event list \<times> cb_result) list" where
  "commands c =
     [([OdmInfoInitialize], odmInfo_initialize c),
      ([AuthInitialize], auth_initialize c),
      ([S3Initialize], S3_initialize c),
      ([NewTaskManager], new_TaskManager c),
      (case app_listen c of
         Listening \<Rightarrow>
           ([Listen (config_port c),
             LogInfo (''Server has started on port '' @ string_of_nat (config_port c))],
            CbOk)
       | BindFailed code \<Rightarrow> (Listen (config_port c) # uncaught_exception code, CbNever))] @
     (if config_powercycle c
      then [([LogInfo ''Power cycling is set, application will shut down...'', Exit 0], CbNever)]
      else [])"

text \<open>Lines 893-898; the message of a bare string prints as "undefined".\<close>

definition startup_failed :: "js_error option \<Rightarrow> proc_event list" where
  "startup_failed err =
     (case err of
        None \<Rightarrow> []
      | Some e \<Rightarrow>
          [LogError (''Error during startup: '' @
                     (case message e of Some m \<Rightarrow> m | None \<Rightarrow> ''undefined'')),
           Exit 1])"

definition startup :: "startup_env \<Rightarrow> proc_event list" where
  "startup c =
     (if config_test c then [LogInfo ''Running in test mode''] else []) @
     series (commands c) startup_failed"

text \<open>
  The error the initialisation reports: that of the first of the four steps with a
  callback of their own (the collaborators and the Task Manager) that does not succeed,
  when it calls back with one.
\<close>

fun first_error :: "cb_result list \<Rightarrow> js_error option" where
  "first_error [] = None"
| "first_error (CbOk # rs) = first_error rs"
| "first_error (CbErr err # rs) = Some err"
| "first_error (CbNever # rs) = None"

definition init_results :: "startup_env \<Rightarrow> cb_result list" where
  "init_results c =
     [odmInfo_initialize c, auth_initialize c, S3_initialize c, new_TaskManager c]"

section \<open>Predicates the statements use\<close>


fun is_restart :: "call \<Rightarrow> bool" where
  "is_restart (TaskRestart u opts) = True"
| "is_restart c = False"

text \<open>
  A request with nothing to process: no body at all, or a form with no file and no
  truthy zipurl.
\<close>

definition no_input :: "new_request \<Rightarrow> bool" where
  "no_input req =
     (case multipart req of
        None \<Rightarrow> True
      | Some f \<Rightarrow> \<not> has_files f \<and> \<not> truthy (body_zipurl f))"

section \<open>Concrete inputs\<close>

definition example_uuid :: string where
  "example_uuid = ''123e4567-e89b-42d3-a456-426614174000''"

definition no_tasks :: task_manager where
  "no_tasks = Map.empty"

text \<open>A node limited to two images on which every collaborator succeeds.\<close>

definition example_env :: env where
  "example_env =
     \<lparr> maxImages = Some 2,
       undefined_body_error = ''Cannot read property zipurl of undefined'',
       uuidv4 = ''0b0e7a6c-3f0d-4c55-9d2e-5a8a1c2f7b10'', upload_error = None,
       filterOptions = (\<lambda>raw. Inr []), stat_srcPath = StatErr ''ENOENT'',
       stat_destPath = StatErr ''ENOENT'', download_zipurl = None, mkdir_destPath = None,
       mkdir_destGpcPath = None, mv_srcPath = None, readdir_for_zip = Inr [''a.jpg''],
       zip_extract = (\<lambda>entry. Extracted 0), readdir_for_gpc = Inr [''a.jpg''],
       mv_entry = (\<lambda>entry. None), unlink_entry = (\<lambda>entry. None),
       new_Task_error = None \<rparr>"

text \<open>One image uploaded, with the id suggested in the header.\<close>

definition example_form :: form where
  "example_form =
     \<lparr> files = [''a.jpg''], body_zipurl = None, body_options = None, body_name = None,
       body_webhook = None, body_skipPostProcessing = None \<rparr>"

definition example_request :: new_request where
  "example_request = \<lparr> set_uuid = Some example_uuid, multipart = Some example_form \<rparr>"

text \<open>
  The same request with a header that is no UUID, with a form that holds nothing to
  process, and with no multipart body at all.
\<close>

definition malformed_request :: new_request where
  "malformed_request = example_request\<lparr>set_uuid := Some ''abc''\<rparr>"

definition empty_request :: new_request where
  "empty_request = example_request\<lparr>multipart := Some (example_form\<lparr>files := []\<rparr>)\<rparr>"

definition no_body_request :: new_request where
  "no_body_request = example_request\<lparr>multipart := None\<rparr>"

text \<open>
  The directory \<^verbatim>\<open>data/<id>\<close> is already there (left by an earlier creation that
  failed after making it) and the upload is in \<^verbatim>\<open>tmp/<id>\<close>.
\<close>

definition leftover_env :: env where
  "leftover_env = example_env\<lparr>stat_destPath := StatOk True, stat_srcPath := StatOk True\<rparr>"

text \<open>One uploaded archive of three entries, on the node limited to two images.\<close>

definition zip_env :: env where
  "zip_env =
     example_env\<lparr>readdir_for_zip := Inr [''images.zip''],
                  zip_extract := (\<lambda>entry. Extracted 3)\<rparr>"

definition zip_request :: new_request where
  "zip_request =
     example_request\<lparr>multipart := Some (example_form\<lparr>files := [''images.zip'']\<rparr>)\<rparr>"

definition example_command :: command_request where
  "example_command =
     \<lparr> body_uuid = Some example_uuid, restart_options = Some ''[]'',
       body_json = ''{\"uuid\":\"123e4567-e89b-42d3-a456-426614174000\",\"options\":\"[]\"}'' \<rparr>"


definition rejecting_validator :: "string option \<Rightarrow> string + options" where
  "rejecting_validator raw = Inl ''Invalid options''"

definition example_task :: task where
  "example_task =
     \<lparr> uuid = example_uuid, name = None, status = COMPLETED, options = [],
       output = [''line 0'', ''line 1'', ''line 2''], webhook = None,
       skipPostProcessing = False \<rparr>"

definition one_task :: task_manager where
  "one_task = no_tasks(example_uuid \<mapsto> example_task)"

text \<open>Only \<^verbatim>\<open>all.zip\<close> resolves, and no file has been written yet.\<close>

definition example_assets :: "task \<Rightarrow> string \<Rightarrow> string option" where
  "example_assets t asset = (if asset = ''all.zip'' then Some ''data/all.zip'' else None)"

definition nothing_exists :: "string \<Rightarrow> bool" where
  "nothing_exists p = False"

definition powercycle_env :: startup_env where
  "powercycle_env =
     \<lparr> config_test = False, config_powercycle = True, config_port = 3000,
       odmInfo_initialize = CbOk, auth_initialize = CbOk, S3_initialize = CbOk,
       new_TaskManager = CbOk, app_listen = Listening \<rparr>"

definition failing_auth_env :: startup_env where
  "failing_auth_env =
     powercycle_env\<lparr>auth_initialize := CbErr (ErrorObj ''Cannot read the token file'')\<rparr>"

section \<open>Facts about the concrete inputs\<close>

lemma example_uuid_valid: "valid_uuid example_uuid"
  unfolding example_uuid_def by code_simp

lemma abc_not_valid: "\<not> valid_uuid ''abc''"
  by code_simp

lemma example_uuid_not_empty: "example_uuid \<noteq> []"
  by (simp add: example_uuid_def)

lemma jpg_is_no_archive:
  "\<not> ends_with_ci ''.zip'' ''a.jpg''" "\<not> ends_with_ci ''.txt'' ''a.jpg''"
  by code_simp+

lemma images_zip_is_archive: "ends_with_ci ''.zip'' ''images.zip''"
  by code_simp

lemma limit_message_3_2:
  "limit_message 3 (Some 2) = ''3 images uploaded, but this node can only process up to 2.''"
  by (simp add: limit_message_def)

lemmas new_route_defs =
  task_new_def choose_id_def new_handler_def die_def has_files_def series_new_def
  step_filterOptions_def step_check_destPath_def step_zipurl_def step_extract_def
  step_gpc_def extract_entry_def move_entry_def step_new_Task_def
  taskManager_find_def taskManager_addNew_def path_join_def

lemmas new_inputs_defs =
  example_env_def example_form_def example_request_def malformed_request_def
  empty_request_def no_body_request_def leftover_env_def zip_env_def zip_request_def
  no_tasks_def

section \<open>POST /task/new: the id of the task\<close>

lemma and_then_Next: "and_then s f = Next y \<Longrightarrow> \<exists>x. s = Next x \<and> f x = Next y"
  by (cases s) auto

lemma series_new_uuid: "series_new e f i = Next t \<Longrightarrow> uuid t = i"
  unfolding series_new_def
  by (auto dest!: and_then_Next simp: step_new_Task_def split: option.splits)

lemma new_handler_manager:
  "manager (new_handler e tm req i) = tm \<or>
   (\<exists>t. uuid t = i \<and> manager (new_handler e tm req i) = tm(i \<mapsto> t) \<and>
        responses (new_handler e tm req i) = [JsonUuid i])"
  by (auto simp: new_handler_def die_def Let_def taskManager_addNew_def
           dest: series_new_uuid split: step.splits option.splits)

text \<open>
  Claim C1, as amended. A request carries a non-empty set-uuid header \<open>u\<close>. If \<open>u\<close> is
  well-formed and no task has that id, \<open>u\<close> becomes the id of the request, and the Task
  Manager either stays as it was (the request failed later) or gains exactly one task,
  stored under \<open>u\<close> with id \<open>u\<close>, and the response names \<open>u\<close>. Otherwise (malformed or in
  use) the request is answered with the error "Invalid set-uuid: u", nothing else runs
  and no task is created: no id is generated in its place.
\<close>

theorem set_uuid_used_or_rejected:
  assumes "set_uuid req = Some u" and "u \<noteq> []"
  shows "if valid_uuid u \<and> taskManager_find tm u = None
         then choose_id e tm req = Inr u \<and>
              (manager (task_new e tm req) = tm \<or>
               (\<exists>t. uuid t = u \<and> manager (task_new e tm req) = tm(u \<mapsto> t) \<and>
                    responses (task_new e tm req) = [JsonUuid u]))
         else task_new e tm req = reply tm (JsonError (Some (''Invalid set-uuid: '' @ u)))"
proof (cases "valid_uuid u \<and> taskManager_find tm u = None")
  case True
  with assms have c: "choose_id e tm req = Inr u"
    by (simp add: choose_id_def)
  show ?thesis
  proof (cases "upload_error e")
    case None
    with c have "task_new e tm req = new_handler e tm req u"
      by (simp add: task_new_def)
    with new_handler_manager[of e tm req u] True c show ?thesis by auto
  next
    case (Some m)
    with c have "manager (task_new e tm req) = tm"
      by (simp add: task_new_def)
    with True c show ?thesis by simp
  qed
next
  case False
  with assms have "choose_id e tm req = Inl (JsonError (Some (''Invalid set-uuid: '' @ u)))"
    by (auto simp: choose_id_def)
  with False show ?thesis
    by (simp add: task_new_def reply_def)
qed

theorem set_uuid_used_or_rejected_witness:
  "choose_id example_env no_tasks example_request = Inr example_uuid \<and>
   task_new example_env no_tasks malformed_request =
     reply no_tasks (JsonError (Some ''Invalid set-uuid: abc''))"
proof -
  have a: "set_uuid example_request = Some example_uuid"
    by (simp add: example_request_def)
  have b: "set_uuid malformed_request = Some ''abc''"
    by (simp add: malformed_request_def example_request_def)
  have c: "''abc'' \<noteq> []" by simp
  have d: "valid_uuid example_uuid \<and> taskManager_find no_tasks example_uuid = None"
    by (simp add: example_uuid_valid taskManager_find_def no_tasks_def)
  from set_uuid_used_or_rejected[OF a example_uuid_not_empty, of no_tasks example_env] d
  have "choose_id example_env no_tasks example_request = Inr example_uuid"
    by simp
  moreover
  from set_uuid_used_or_rejected[OF b c, of no_tasks example_env] abc_not_valid
  have "task_new example_env no_tasks malformed_request =
          reply no_tasks (JsonError (Some ''Invalid set-uuid: abc''))"
    by simp
  ultimately show ?thesis by simp
qed

text \<open>
  Claim C1 as stated fails: with the header \<^verbatim>\<open>abc\<close> on a request that is otherwise
  fine, the only response is the error, and afterwards the Task Manager holds no task
  at all, so none was created under a generated id. Without the header the same request
  creates a task under the generated id.
\<close>

theorem malformed_set_uuid_creates_no_task:
  "responses (task_new example_env no_tasks malformed_request) =
     [JsonError (Some ''Invalid set-uuid: abc'')] \<and>
   dom (manager (task_new example_env no_tasks malformed_request)) = {} \<and>
   responses (task_new example_env no_tasks (example_request\<lparr>set_uuid := None\<rparr>)) =
     [JsonUuid ''0b0e7a6c-3f0d-4c55-9d2e-5a8a1c2f7b10'']"
  by (simp add: new_route_defs new_inputs_defs abc_not_valid jpg_is_no_archive)

section \<open>POST /task/new: nothing to process\<close>

text \<open>
  Claim C2. A request has no uploaded file and no zipurl: it has no multipart body at
  all, or its form holds no file and no truthy zipurl. The handler sends exactly one
  response, an error: for a form, "Need at least 1 file or a zip file url."; without a
  body, the message of the TypeError that line 188 raises, sent by the error-handling
  middleware. It leaves the Task Manager as it was. Whatever the earlier middlewares
  do, the whole route sends exactly one error response with a message, creates no task
  and throws nothing that is not caught.
\<close>

theorem no_input_rejected:
  assumes "no_input req"
  shows "responses (new_handler e tm req i) =
           [JsonError (Some (case multipart req of
                               None \<Rightarrow> undefined_body_error e
                             | Some f \<Rightarrow> ''Need at least 1 file or a zip file url.''))] \<and>
         manager (new_handler e tm req i) = tm \<and>
         uncaught (new_handler e tm req i) = None \<and>
         (\<exists>m. responses (task_new e tm req) = [JsonError (Some m)]) \<and>
         manager (task_new e tm req) = tm \<and>
         uncaught (task_new e tm req) = None"
  using assms
  by (auto simp: no_input_def task_new_def new_handler_def die_def choose_id_def Let_def
           split: sum.splits option.splits)

theorem no_input_rejected_witness:
  "responses (new_handler example_env no_tasks empty_request example_uuid) =
     [JsonError (Some ''Need at least 1 file or a zip file url.'')] \<and>
   manager (task_new example_env no_tasks empty_request) = no_tasks \<and>
   responses (new_handler example_env no_tasks no_body_request example_uuid) =
     [JsonError (Some ''Cannot read property zipurl of undefined'')] \<and>
   manager (task_new example_env no_tasks no_body_request) = no_tasks"
proof -
  have a: "no_input empty_request"
    by (simp add: no_input_def has_files_def empty_request_def example_request_def
          example_form_def)
  have b: "no_input no_body_request"
    by (simp add: no_input_def no_body_request_def example_request_def)
  have c: "multipart empty_request = Some (example_form\<lparr>files := []\<rparr>)"
    by (simp add: empty_request_def example_request_def)
  have d: "multipart no_body_request = None"
    by (simp add: no_body_request_def example_request_def)
  have e: "undefined_body_error example_env = ''Cannot read property zipurl of undefined''"
    by (simp add: example_env_def)
  from no_input_rejected[OF a, of example_env no_tasks example_uuid]
       no_input_rejected[OF b, of example_env no_tasks example_uuid]
  show ?thesis by (simp add: c d e)
qed

section \<open>POST /task/new: failures\<close>

text \<open>
  Claim C9, evaluated where it fails. Files were uploaded under a suggested id whose
  directory \<^verbatim>\<open>data/<id>\<close> already exists, and \<^verbatim>\<open>tmp/<id>\<close> holds the upload. The
  check of lines 210-213 throws a TypeError while building its own error message: no
  response is sent, \<^verbatim>\<open>die\<close> never runs, and \<^verbatim>\<open>tmp/<id>\<close> is not removed.
\<close>

theorem existing_destPath_sends_nothing:
  "responses (task_new leftover_env no_tasks example_request) = [] \<and>
   calls (task_new leftover_env no_tasks example_request) = [FilterOptions None] \<and>
   uncaught (task_new leftover_env no_tasks example_request) = Some ''TypeError''"
  by (simp add: new_route_defs new_inputs_defs example_uuid_valid)

text \<open>
  Claim C10, evaluated where it fails. On a node limited to two images an uploaded
  archive yields three entries. The series stops with the message as a bare string, the
  final callback reads its \<^verbatim>\<open>.message\<close>, and the response is
  \<^verbatim>\<open>{error: undefined}\<close>: no task is created, but the client is sent no error text.
\<close>

theorem zip_over_limit_reply_has_no_error:
  "extract_entry zip_env ''images.zip'' =
     Failed (ErrorStr ''3 images uploaded, but this node can only process up to 2.'') \<and>
   responses (task_new zip_env no_tasks zip_request) = [JsonError None] \<and>
   dom (manager (task_new zip_env no_tasks zip_request)) = {}"
  by (simp add: new_route_defs new_inputs_defs example_uuid_valid images_zip_is_archive
        limit_message_3_2)

section \<open>Cancel, remove, restart and the lookups\<close>















section \<open>POST /task/restart: the options are validated first\<close>

text \<open>
  Claim C4. A restart request supplies options. If the validator refuses them, the one
  response is an error with a message, the Task Manager is as it was and its restart is
  not among the calls made. If it accepts them, the calls are the validator's and then
  the restart, which is given the validated list (and no call is made at all when the
  uuid is missing).
\<close>

theorem restart_validates_options_first:
  assumes "truthy (restart_options req)"
  shows "case validator (restart_options req) of
           Inl m \<Rightarrow>
             (\<exists>x. responses (post_restart validator tm req) = [JsonError (Some x)]) \<and>
             manager (post_restart validator tm req) = tm \<and>
             \<not> list_ex is_restart (calls (post_restart validator tm req))
         | Inr opts \<Rightarrow>
             calls (post_restart validator tm req) =
               (if truthy (body_uuid req)
                then [FilterOptions (restart_options req),
                      TaskRestart (the (body_uuid req)) (Some opts)]
                else [])"
  using assms
  by (auto simp: post_restart_def uuidCheck_def reply_def Let_def
           split: sum.splits prod.splits)

theorem restart_validates_options_first_witness:
  "(\<exists>x. responses (post_restart rejecting_validator one_task example_command) =
          [JsonError (Some x)]) \<and>
   manager (post_restart rejecting_validator one_task example_command) = one_task \<and>
   \<not> list_ex is_restart (calls (post_restart rejecting_validator one_task example_command))"
proof -
  have a: "truthy (restart_options example_command)"
    by (simp add: example_command_def)
  have b: "rejecting_validator (restart_options example_command) = Inl ''Invalid options''"
    by (simp add: rejecting_validator_def)
  from restart_validates_options_first[OF a, where validator = rejecting_validator
      and tm = one_task]
  show ?thesis unfolding b by simp
qed

section \<open>GET /task/:uuid/download/:asset\<close>

text \<open>
  Claim C5. For a task the Task Manager knows, the download handler answers with the
  error "Invalid asset" when the task resolves the asset name to nothing, with the error
  "Asset not ready" when it resolves the name to a path where no file exists, and
  streams the file otherwise; each time it is one ordinary response and nothing is
  thrown.
\<close>

theorem download_missing_asset:
  assumes "taskManager_find tm u = Some t"
  shows "get_download gp ex tm u a =
           (let asset = (case a of Some x \<Rightarrow> x | None \<Rightarrow> ''all.zip'') in
            if \<not> truthy (gp t asset) then reply tm (JsonError (Some ''Invalid asset''))
            else if \<not> ex (the (gp t asset)) then reply tm (JsonError (Some ''Asset not ready''))
            else reply tm (FileStream asset (the (gp t asset)))) \<and>
         uncaught (get_download gp ex tm u a) = None"
  using assms
  by (simp add: get_download_def getTaskFromUuid_def Let_def reply_def)

theorem download_missing_asset_witness:
  "get_download example_assets nothing_exists one_task example_uuid (Some ''dsm.tif'') =
     reply one_task (JsonError (Some ''Invalid asset'')) \<and>
   get_download example_assets nothing_exists one_task example_uuid None =
     reply one_task (JsonError (Some ''Asset not ready''))"
proof -
  have a: "taskManager_find one_task example_uuid = Some example_task"
    by (simp add: taskManager_find_def one_task_def)
  from download_missing_asset[OF a, of example_assets nothing_exists "Some ''dsm.tif''"]
       download_missing_asset[OF a, of example_assets nothing_exists None]
  show ?thesis
    by (simp add: example_assets_def nothing_exists_def)
qed

section \<open>The output of a task\<close>

lemma slice_from_drop: "slice_from xs n = drop n xs"
  by (induction xs n rule: slice_from.induct) simp_all

text \<open>
  Claim C6. \<open>getOutput\<close> from line 0 is the whole output; from a line past the end it is
  the empty list; in general it has the lines from index \<open>fromLine\<close> on, each at its place,
  and the handler sends exactly that list for a task the Task Manager knows.
\<close>

theorem getOutput_slices:
  "getOutput t 0 = output t \<and>
   (length (output t) < fromLine \<longrightarrow> getOutput t fromLine = []) \<and>
   length (getOutput t fromLine) = length (output t) - fromLine \<and>
   (\<forall>i. fromLine + i < length (output t) \<longrightarrow>
        getOutput t fromLine ! i = output t ! (fromLine + i)) \<and>
   (taskManager_find tm u = Some t \<longrightarrow>
      get_output tm u (Some fromLine) = reply tm (JsonOutput (getOutput t fromLine)) \<and>
      get_output tm u None = reply tm (JsonOutput (output t)))"
  by (simp add: getOutput_def slice_from_drop get_output_def getTaskFromUuid_def)

theorem getOutput_slices_witness:
  "getOutput example_task 0 = [''line 0'', ''line 1'', ''line 2''] \<and>
   getOutput example_task 7 = [] \<and>
   getOutput example_task 1 ! 0 = ''line 1'' \<and>
   get_output one_task example_uuid None =
     reply one_task (JsonOutput [''line 0'', ''line 1'', ''line 2''])"
proof -
  have a: "output example_task = [''line 0'', ''line 1'', ''line 2'']"
    by (simp add: example_task_def)
  have b: "taskManager_find one_task example_uuid = Some example_task"
    by (simp add: taskManager_find_def one_task_def)
  from getOutput_slices[of example_task 7 one_task example_uuid]
  have "getOutput example_task 0 = [''line 0'', ''line 1'', ''line 2''] \<and>
        getOutput example_task 7 = [] \<and>
        get_output one_task example_uuid None =
          reply one_task (JsonOutput [''line 0'', ''line 1'', ''line 2''])"
    by (simp add: a b)
  moreover
  from getOutput_slices[of example_task 1 one_task example_uuid]
  have "getOutput example_task 1 ! 0 = ''line 1''"
    by (simp add: a)
  ultimately show ?thesis by simp
qed

section \<open>Graceful shutdown\<close>

text \<open>
  Once startup has constructed the Task Manager, the dump of the task list is the first
  thing a signal causes, and the process ends only afterwards: with code 0, the server
  closed, when the dump and the cleanup both called back without an error, and otherwise,
  when one of them reports an error, through the TypeError of calling \<^verbatim>\<open>done\<close>.
\<close>

lemma shutdown_order_once_constructed:
  "(\<exists>rest. on_signal True sg d c = DumpTaskList # rest) \<and>
   (\<forall>i k. i < length (on_signal True sg d c) \<and>
          (on_signal True sg d c ! i = Exit k \<or> on_signal True sg d c ! i = ServerClose) \<longrightarrow>
          0 < i \<and> on_signal True sg d c ! 0 = DumpTaskList) \<and>
   (ServerClose \<in> set (on_signal True sg d c) \<or> Exit 0 \<in> set (on_signal True sg d c) \<longrightarrow>
      d = CbOk \<and> c = CbOk) \<and>
   (d = CbOk \<and> c = CbOk \<longrightarrow>
      on_signal True sg d c =
        [DumpTaskList, AuthCleanup, LogInfo ''Closing server'', ServerClose,
         LogInfo ''Exiting...'', Exit 0])"
  by (cases sg; cases d; cases c)
     (auto simp: gracefulShutdown_def uncaught_exception_def nth_Cons' less_Suc_eq
           split: if_splits)

text \<open>
  Claim C7, evaluated where it fails. A signal arrives while startup is still
  initialising its collaborators, before line 877 has set \<^verbatim>\<open>taskManager\<close>: the first
  step of \<^verbatim>\<open>gracefulShutdown\<close> throws on \<^verbatim>\<open>taskManager.dumpTaskList\<close>, and the process
  ends with code 1 without any dump, without the cleanup and without closing the server.
\<close>

theorem signal_before_construction_exits_without_dump:
  "on_signal False SIGTERM CbOk CbOk = [Uncaught ''TypeError'', Exit 1] \<and>
   on_signal False SIGINT CbOk CbOk = [Uncaught ''TypeError'', Exit 1] \<and>
   DumpTaskList \<notin> set (on_signal False SIGTERM CbOk CbOk)"
  by (simp add: gracefulShutdown_def uncaught_exception_def)

section \<open>Startup\<close>

text \<open>
  Claim C8, as amended. When a collaborator's initialisation or the construction of the
  Task Manager reports an Error object, the last things the process does are to log
  "Error during startup: " with its message and to exit with code 1. Apart from a failed
  startup (one of those four steps reports an error, then the exit code is 1, or the
  port cannot be bound), the process exits on this path in one case only: with code 0,
  when power cycling is configured and every step has succeeded, the server listening.
\<close>

theorem startup_exit_conditions:
  "(first_error (init_results c) = Some (ErrorObj m) \<longrightarrow>
      (\<exists>pre. startup c = pre @ [LogError (''Error during startup: '' @ m), Exit 1])) \<and>
   (Exit k \<in> set (startup c) \<longrightarrow>
      (k = 1 \<and> first_error (init_results c) \<noteq> None) \<or>
      (init_results c = [CbOk, CbOk, CbOk, CbOk] \<and> app_listen c \<noteq> Listening) \<or>
      (k = 0 \<and> config_powercycle c \<and> init_results c = [CbOk, CbOk, CbOk, CbOk] \<and>
       app_listen c = Listening))"
  unfolding startup_def commands_def init_results_def
  by (cases "odmInfo_initialize c"; cases "auth_initialize c"; cases "S3_initialize c";
      cases "new_TaskManager c"; cases "app_listen c")
     (auto simp: startup_failed_def uncaught_exception_def split: if_splits)

theorem startup_exit_conditions_witness:
  "\<exists>pre. startup failing_auth_env =
     pre @ [LogError ''Error during startup: Cannot read the token file'', Exit 1]"
proof -
  have a: "first_error (init_results failing_auth_env) =
             Some (ErrorObj ''Cannot read the token file'')"
    by (simp add: init_results_def failing_auth_env_def powercycle_env_def)
  from startup_exit_conditions[of failing_auth_env "''Cannot read the token file''"] a
  show ?thesis by simp
qed

text \<open>
  Claim C8 as stated fails: with power cycling configured and every step succeeding, no
  step reports an error and yet the process exits, with code 0.
\<close>

theorem powercycle_exits_without_error:
  "first_error (init_results powercycle_env) = None \<and>
   app_listen powercycle_env = Listening \<and>
   startup powercycle_env =
     [OdmInfoInitialize, AuthInitialize, S3Initialize, NewTaskManager, Listen 3000,
      LogInfo ''Server has started on port 3000'',
      LogInfo ''Power cycling is set, application will shut down...'', Exit 0]"
proof -
  have "string_of_nat 3000 = ''3000''" by code_simp
  then show ?thesis
    by (simp add: init_results_def startup_def commands_def powercycle_env_def)
qed

end
